theory Spec2Isabelle
  imports Complex_Main "HOL-Library.Multiset"
begin

section \<open>Values\<close>

text \<open>
  The evaluator works on Go values of type \<open>any\<close>.  A document produced by
  \<open>json.Unmarshal\<close> consists of \<open>nil\<close> (JSON null), \<open>bool\<close>, numbers,
  \<open>string\<close>, \<open>[]any\<close> and \<open>map[string]any\<close>.  The filter engine adds two
  private sentinels: \<open>nothing{}\<close> (a singular query that selected no node) and
  \<open>jsonNull{}\<close> (the literal \<open>null\<close> of a filter expression).

  Numbers: \<open>VInt\<close> stands for the Go integer types, \<open>VFloat\<close> for \<open>float64\<close>,
  given by its exact rational value; rounding of \<open>float64\<close> is not modelled.
  A \<open>map[string]any\<close> is an association list; \<open>m[k]\<close> is \<open>map_of m k\<close>.
\<close>

datatype val =
    VNil
  | VBool bool
  | VInt int
  | VFloat rat
  | VStr string
  | VArr "val list"
  | VObj "(string \<times> val) list"
  | VNothing
  | VJSONNull

text \<open>
  Go leaves the order in which \<open>range\<close> visits a map unspecified.  An
  \<open>order\<close> chooses the sequence of entries visited for each map;
  \<open>range_map\<close> keeps of that sequence the entries that are in the map.  For
  an order that permutes the entries (\<open>is_order\<close>) nothing is dropped.
\<close>

type_synonym order = "(string \<times> val) list \<Rightarrow> (string \<times> val) list"

definition range_map :: "order \<Rightarrow> (string \<times> val) list \<Rightarrow> (string \<times> val) list" where
  "range_map ord m = filter (\<lambda>e. e \<in> set m) (ord m)"


definition list_order :: order where
  "list_order m = m"

section \<open>Comparison of values (filter.go)\<close>

fun isNumeric :: "val \<Rightarrow> bool" where
  "isNumeric (VInt _) = True"
| "isNumeric (VFloat _) = True"
| "isNumeric _ = False"

fun toFloat64 :: "val \<Rightarrow> rat" where
  "toFloat64 (VInt n) = of_int n"
| "toFloat64 (VFloat r) = r"
| "toFloat64 _ = 0"

fun isNull :: "val \<Rightarrow> bool" where
  "isNull VJSONNull = True"
| "isNull VNil = True"
| "isNull _ = False"

text \<open>\<open>sameType\<close>: compatible types for an ordering comparison.\<close>

definition sameType :: "val \<Rightarrow> val \<Rightarrow> bool" where
  "sameType a b =
     (if a = VNothing then False
      else if b = VNothing then False
      else if isNull a \<or> isNull b then isNull a \<and> isNull b
      else if isNumeric a \<and> isNumeric b then True
      else (case a of
              VStr _ \<Rightarrow> (case b of VStr _ \<Rightarrow> True | _ \<Rightarrow> False)
            | VBool _ \<Rightarrow> (case b of VBool _ \<Rightarrow> True | _ \<Rightarrow> False)
            | _ \<Rightarrow> False))"

text \<open>Go compares strings byte by byte.\<close>

fun string_less :: "string \<Rightarrow> string \<Rightarrow> bool" where
  "string_less [] [] = False"
| "string_less [] (y # ys) = True"
| "string_less (x # xs) [] = False"
| "string_less (x # xs) (y # ys) =
     ((of_char x :: nat) < of_char y \<or> (x = y \<and> string_less xs ys))"

fun isArr :: "val \<Rightarrow> bool" where
  "isArr (VArr _) = True"
| "isArr _ = False"

fun isObj :: "val \<Rightarrow> bool" where
  "isObj (VObj _) = True"
| "isObj _ = False"

text \<open>
  \<open>equalTo\<close>.  The last line of the source is Go's \<open>a == b\<close> on two interface
  values that are neither slices nor maps: equal dynamic type and equal value.
\<close>

definition isNoValue :: "val \<Rightarrow> val \<Rightarrow> val \<Rightarrow> bool" where
  \<comment> \<open>\<open>xIsNothing || (x == nil && !aIsJSONNull && !bIsJSONNull)\<close>\<close>
  "isNoValue x a b = (x = VNothing \<or> (x = VNil \<and> a \<noteq> VJSONNull \<and> b \<noteq> VJSONNull))"

fun equalTo :: "val \<Rightarrow> val \<Rightarrow> bool"
  and equalTo_elems :: "val list \<Rightarrow> val list \<Rightarrow> bool"
  and equalTo_members :: "(string \<times> val) list \<Rightarrow> (string \<times> val) list \<Rightarrow> bool" where
  "equalTo a b =
     (if isNoValue a a b \<and> isNoValue b a b then True
      else if isNoValue a a b \<or> isNoValue b a b then False
      else if (a = VJSONNull \<and> b = VNil) \<or> (a = VNil \<and> b = VJSONNull)
              \<or> (a = VJSONNull \<and> b = VJSONNull) then True
      else if a = VJSONNull \<or> b = VJSONNull then False
      else if isNumeric a \<and> isNumeric b then toFloat64 a = toFloat64 b
      else (case a of
              VArr aArr \<Rightarrow>
                (case b of
                   VArr bArr \<Rightarrow>
                     if length aArr \<noteq> length bArr then False else equalTo_elems aArr bArr
                 | _ \<Rightarrow> False)
            | VObj aObj \<Rightarrow>
                (case b of
                   VObj bObj \<Rightarrow>
                     if length aObj \<noteq> length bObj then False else equalTo_members aObj bObj
                 | _ \<Rightarrow> False)
            | _ \<Rightarrow> if isArr b \<or> isObj b then False else a = b))"
| "equalTo_elems [] bs = True"
| "equalTo_elems (x # xs) [] = True"
| "equalTo_elems (x # xs) (y # ys) = (if \<not> equalTo x y then False else equalTo_elems xs ys)"
| "equalTo_members [] bObj = True"
| "equalTo_members ((k, v) # rest) bObj =
     (case map_of bObj k of
        None \<Rightarrow> False
      | Some bv \<Rightarrow> if \<not> equalTo v bv then False else equalTo_members rest bObj)"

text \<open>\<open>lessThan\<close>; the source assumes \<open>sameType a b\<close>.\<close>

definition lessThan :: "val \<Rightarrow> val \<Rightarrow> bool" where
  "lessThan a b =
     (if a = VNil \<or> b = VNil then False
      else if isNumeric a \<and> isNumeric b then toFloat64 a < toFloat64 b
      else (case (a, b) of (VStr sa, VStr sb) \<Rightarrow> string_less sa sb | _ \<Rightarrow> False))"

datatype CompOp = Equal | NotEqual | Less | LessEqual | Greater | GreaterEqual

text \<open>The \<open>switch c.Op\<close> of \<open>CompExpr.Eval\<close>, on the two operand values.\<close>

fun compare_values :: "CompOp \<Rightarrow> val \<Rightarrow> val \<Rightarrow> bool" where
  "compare_values Equal left right = equalTo left right"
| "compare_values NotEqual left right = (\<not> equalTo left right)"
| "compare_values Less left right = (sameType left right \<and> lessThan left right)"
| "compare_values LessEqual left right =
     (sameType left right \<and> (lessThan left right \<or> equalTo left right))"
| "compare_values Greater left right =
     (sameType left right \<and> \<not> lessThan left right \<and> \<not> equalTo left right)"
| "compare_values GreaterEqual left right = (sameType left right \<and> \<not> lessThan left right)"

section \<open>Abstract syntax (package ast)\<close>

datatype error =
    ErrArgCount
  | ErrArgType
  | ErrSyntax string nat
  | ErrParseEnd string
  | ErrParsePosition string nat
  | ErrUnknownFunction string
  | ErrInvalidFunction string
  | ErrInvalidInteger
  | ErrNilDereference

datatype FuncType = Logical | Value | Nodes

datatype ArgType = Literal | QueryArg | FilterArg | LogicalArg | FunctionArg

fun ArgConvertsTo :: "ArgType \<Rightarrow> FuncType \<Rightarrow> bool" where
  "ArgConvertsTo Literal target = (target = Value)"
| "ArgConvertsTo QueryArg target = (target = Value \<or> target = Nodes)"
| "ArgConvertsTo FilterArg target = (target = Nodes)"
| "ArgConvertsTo LogicalArg target = (target = Logical)"
| "ArgConvertsTo FunctionArg target = True"

text \<open>
  The interface \<open>Function\<close>: a value with the four methods \<open>Name\<close>,
  \<open>ResultType\<close>, \<open>Validate\<close> (\<open>None\<close> is the \<open>nil\<close> error) and \<open>Call\<close>.
\<close>

datatype Function =
  Function (Name_of: string) (ResultType_of: FuncType)
           (Validate_of: "ArgType list \<Rightarrow> error option") (Call_of: "val list \<Rightarrow> val")

text \<open>
  \<open>Index\<close>, \<open>Start\<close>, \<open>End\<close> and \<open>Step\<close> are \<open>int64\<close> in the source.  The
  parser admits only integers of absolute value at most \<open>2^53 - 1\<close>, and on
  those no operation of the evaluator leaves the range of \<open>int64\<close>; the model
  uses \<open>int\<close>.
\<close>

record SliceArgs =
  Start :: int
  End :: int
  Step :: int
  HasStart :: bool
  HasEnd :: bool
  HasStep :: bool

text \<open>
  \<open>Selector\<close> is a struct with a \<open>Kind\<close> tag of which only the field of that
  kind is read.  \<open>LogicalOr\<close> is a slice of \<open>LogicalAnd\<close>, which is a slice of
  \<open>BasicExpr\<close>.  \<open>FuncTestExpr\<close> is a \<open>*FuncExpr\<close> used as a \<open>BasicExpr\<close>.
  The arguments of a \<open>FuncExpr\<close> are of type \<open>any\<close>; \<open>FuncExpr.Call\<close>
  distinguishes \<open>*PathQuery\<close>, \<open>*FuncExpr\<close>, \<open>CompValue\<close> and anything else.
\<close>

datatype Selector =
    Name string
  | Index int
  | Slice SliceArgs
  | Wildcard
  | Filter FilterExpr
and FilterExpr = FilterExpr (Or: "BasicExpr list list")
and BasicExpr =
    ExistExpr PathQuery
  | NonExistExpr PathQuery
  | ParenExpr "BasicExpr list list"
  | NotParenExpr "BasicExpr list list"
  | NegFuncExpr FuncExpr
  | CompExpr CompValue CompOp CompValue
  | FuncTestExpr FuncExpr
and CompValue =
    LiteralValue val
  | QueryValue PathQuery
  | FuncValue FuncExpr
and FuncExpr = FuncExpr (fe_name: string) (fe_fn: Function) (fe_args: "FuncArg list")
                        (fe_argTypes: "ArgType list")
and FuncArg =
    ArgQuery PathQuery
  | ArgFunc FuncExpr
  | ArgComp CompValue
  | ArgOther val
and PathQuery = PathQuery (segments: "Segment list") (IsRoot: bool)
and Segment = Segment (selectors: "Selector list") (descendant: bool)

fun Selector_IsSingular :: "Selector \<Rightarrow> bool" where
  "Selector_IsSingular (Name _) = True"
| "Selector_IsSingular (Index _) = True"
| "Selector_IsSingular _ = False"

definition Segment_IsSingular :: "Segment \<Rightarrow> bool" where
  "Segment_IsSingular s =
     (if descendant s \<or> length (selectors s) \<noteq> 1 then False
      else Selector_IsSingular (selectors s ! 0))"

fun IsSingular_loop :: "Segment list \<Rightarrow> bool" where
  "IsSingular_loop [] = True"
| "IsSingular_loop (s # rest) =
     (if descendant s then False
      else if \<not> Segment_IsSingular s then False
      else IsSingular_loop rest)"

definition PathQuery_IsSingular :: "PathQuery \<Rightarrow> bool" where
  "PathQuery_IsSingular q = IsSingular_loop (segments q)"

section \<open>The evaluator of package ast\<close>

text \<open>
  The two loops \<open>for i := start; i < end; i += step\<close> and
  \<open>for i := start; i > end; i += step\<close>, as the list of the values of \<open>i\<close>
  for which the body runs.
\<close>

function loop_up :: "int \<Rightarrow> int \<Rightarrow> int \<Rightarrow> int list" where
  "loop_up i e step = (if 0 < step \<and> i < e then i # loop_up (i + step) e step else [])"
  by pat_completeness auto
termination
  by (relation "measure (\<lambda>(i, e, step). nat (e - i))") auto

function loop_down :: "int \<Rightarrow> int \<Rightarrow> int \<Rightarrow> int list" where
  "loop_down i e step = (if step < 0 \<and> e < i then i # loop_down (i + step) e step else [])"
  by pat_completeness auto
termination
  by (relation "measure (\<lambda>(i, e, step). nat (i - e))") auto

declare loop_up.simps [simp del]
declare loop_down.simps [simp del]

text \<open>
  \<open>Selector.applySlice\<close>: the indices \<open>i\<close> of the elements \<open>arr[i]\<close> it
  appends, for an array of length \<open>len\<close>.
\<close>

definition applySlice_indices :: "SliceArgs \<Rightarrow> int \<Rightarrow> int list" where
  "applySlice_indices a len =
     (if len = 0 then []
      else
        let step = (if \<not> HasStep a then 1 else Step a) in
        if step = 0 then []
        else
          let start = (if step > 0 then (if \<not> HasStart a then 0 else Start a)
                       else (if \<not> HasStart a then len - 1 else Start a));
              end = (if step > 0 then (if \<not> HasEnd a then len else End a)
                     else (if \<not> HasEnd a then - len - 1 else End a));
              start = (if start < 0 then start + len else start);
              end = (if end < 0 then end + len else end)
          in
          if step > 0 then
            let start = (if start < 0 then 0 else start);
                start = (if start > len then len else start);
                end = (if end < 0 then 0 else end);
                end = (if end > len then len else end)
            in loop_up start end step
          else
            let start = (if start < 0 then 0 else start);
                start = (if start \<ge> len then len - 1 else start);
                end = (if end < -1 then -1 else end);
                end = (if end \<ge> len then len - 1 else end)
            in loop_down start end step)"

definition applySlice :: "SliceArgs \<Rightarrow> val list \<Rightarrow> val list \<Rightarrow> val list" where
  "applySlice a out arr =
     out @ map (\<lambda>i. arr ! nat i) (applySlice_indices a (int (length arr)))"

text \<open>
  \<open>appendDescendant\<close> of segment.go, for the function \<open>f\<close> that applies the
  selectors to one node: \<open>f out node\<close> is \<open>appendSelectors(out, selectors, node, root)\<close>.
\<close>

function appendDescendant_with ::
  "(val list \<Rightarrow> val \<Rightarrow> val list) \<Rightarrow> order \<Rightarrow> val list \<Rightarrow> val \<Rightarrow> val list" where
  "appendDescendant_with f ord out node =
     (let out = f out node in
      case node of
        VObj n \<Rightarrow> fold (\<lambda>e out. appendDescendant_with f ord out (snd e)) (range_map ord n) out
      | VArr n \<Rightarrow> fold (\<lambda>v out. appendDescendant_with f ord out v) n out
      | _ \<Rightarrow> out)"
  by pat_completeness auto

termination
proof (relation "measure (\<lambda>(f, ord, out, node). size node)")
  show "wf (measure (\<lambda>(f, ord, out, node). size node))"
    by simp
next
  fix f :: "val list \<Rightarrow> val \<Rightarrow> val list" and ord :: order and out node x x7 xa
  assume node: "node = VObj x7" and mem: "xa \<in> set (range_map ord x7)"
  have "e \<in> set m \<Longrightarrow> size (snd e) < Suc (size_list (size_prod (\<lambda>x. 0) size) m)"
    for e :: "string \<times> val" and m
  proof (induction m)
    case Nil
    then show ?case by simp
  next
    case (Cons a m)
    show ?case
    proof (cases "e = a")
      case True
      then show ?thesis by (cases a) simp
    next
      case False
      with Cons have "size (snd e) < Suc (size_list (size_prod (\<lambda>x. 0) size) m)"
        by simp
      then show ?thesis by simp
    qed
  qed
  moreover from mem have "xa \<in> set x7"
    by (simp add: range_map_def)
  ultimately have "size (snd xa) < Suc (size_list (size_prod (\<lambda>x. 0) size) x7)"
    by blast
  with node
  show "((f, ord, x, snd xa), f, ord, out, node) \<in> measure (\<lambda>(f, ord, out, node). size node)"
    by simp
next
  fix f :: "val list \<Rightarrow> val \<Rightarrow> val list" and ord :: order and out node x x6 xa
  assume node: "node = VArr x6" and mem: "xa \<in> set x6"
  from mem have "size xa < Suc (size_list size x6)"
    by (induction x6) auto
  with node
  show "((f, ord, x, xa), f, ord, out, node) \<in> measure (\<lambda>(f, ord, out, node). size node)"
    by simp
qed

declare appendDescendant_with.simps [simp del]

text \<open>
  The body of \<open>FuncExpr.Eval\<close> around its call \<open>fe.Call(current, root)\<close>, whose
  value is \<open>result\<close>: a function that is not logical gives \<open>false\<close> (the
  source tests this before the call, which has no effect of its own), a
  \<open>bool\<close> result is returned, any other result is \<open>false\<close>.
\<close>

definition FuncExpr_Eval_result :: "FuncExpr \<Rightarrow> val \<Rightarrow> bool" where
  "FuncExpr_Eval_result fe result =
     (if ResultType_of (fe_fn fe) \<noteq> Logical then False
      else (case result of VBool b \<Rightarrow> b | _ \<Rightarrow> False))"

text \<open>
  \<open>Selector.Apply\<close>, \<open>Segment.Apply\<close>, \<open>PathQuery.Select\<close> and the filter
  expressions, which call one another.  The loops over slices of the syntax
  tree are the functions on lists.
\<close>

primrec Selector_Apply :: "Selector \<Rightarrow> order \<Rightarrow> val list \<Rightarrow> val \<Rightarrow> val \<Rightarrow> val list"
  and appendSelectors :: "Selector list \<Rightarrow> order \<Rightarrow> val list \<Rightarrow> val \<Rightarrow> val \<Rightarrow> val list"
  and Segment_Apply :: "Segment \<Rightarrow> order \<Rightarrow> val list \<Rightarrow> val \<Rightarrow> val list"
  and Select_loop :: "Segment list \<Rightarrow> order \<Rightarrow> val list \<Rightarrow> val \<Rightarrow> val list"
  and PathQuery_Select :: "PathQuery \<Rightarrow> order \<Rightarrow> val \<Rightarrow> val \<Rightarrow> val list"
  and FilterExpr_Eval :: "FilterExpr \<Rightarrow> order \<Rightarrow> val \<Rightarrow> val \<Rightarrow> bool"
  and LogicalOr_Eval :: "BasicExpr list list \<Rightarrow> order \<Rightarrow> val \<Rightarrow> val \<Rightarrow> bool"
  and LogicalAnd_Eval :: "BasicExpr list \<Rightarrow> order \<Rightarrow> val \<Rightarrow> val \<Rightarrow> bool"
  and BasicExpr_Eval :: "BasicExpr \<Rightarrow> order \<Rightarrow> val \<Rightarrow> val \<Rightarrow> bool"
  and CompValue_Value :: "CompValue \<Rightarrow> order \<Rightarrow> val \<Rightarrow> val \<Rightarrow> val"
  and FuncExpr_Call :: "FuncExpr \<Rightarrow> order \<Rightarrow> val \<Rightarrow> val \<Rightarrow> val"
  and evalArgs :: "FuncArg list \<Rightarrow> order \<Rightarrow> ArgType list \<Rightarrow> nat \<Rightarrow> val \<Rightarrow> val \<Rightarrow> val list"
  and evalArg :: "FuncArg \<Rightarrow> order \<Rightarrow> ArgType list \<Rightarrow> nat \<Rightarrow> val \<Rightarrow> val \<Rightarrow> val"
where
  "Selector_Apply (Name name) ord out node rootv =
     (case node of
        VObj m \<Rightarrow> (case map_of m name of Some v \<Rightarrow> out @ [v] | None \<Rightarrow> out)
      | _ \<Rightarrow> out)"
| "Selector_Apply (Index i) ord out node rootv =
     (case node of
        VArr arr \<Rightarrow>
          (let idx = (if i < 0 then i + int (length arr) else i) in
           if idx \<ge> 0 \<and> idx < int (length arr) then out @ [arr ! nat idx] else out)
      | _ \<Rightarrow> out)"
| "Selector_Apply (Slice a) ord out node rootv =
     (case node of VArr arr \<Rightarrow> applySlice a out arr | _ \<Rightarrow> out)"
| "Selector_Apply Wildcard ord out node rootv =
     (case node of
        VObj n \<Rightarrow> fold (\<lambda>e out. out @ [snd e]) (range_map ord n) out
      | VArr n \<Rightarrow> out @ n
      | _ \<Rightarrow> out)"
| "Selector_Apply (Filter f) ord out node rootv =
     (case node of
        VObj n \<Rightarrow>
          fold (\<lambda>e out. if FilterExpr_Eval f ord (snd e) rootv then out @ [snd e] else out)
               (range_map ord n) out
      | VArr n \<Rightarrow>
          fold (\<lambda>v out. if FilterExpr_Eval f ord v rootv then out @ [v] else out) n out
      | _ \<Rightarrow> out)"
| "appendSelectors [] ord out node rootv = out"
| "appendSelectors (s # rest) ord out node rootv =
     appendSelectors rest ord (Selector_Apply s ord out node rootv) node rootv"
| "Segment_Apply (Segment sels desc) ord nodes rootv =
     (if length nodes = 0 then nodes
      else if desc then
        fold (\<lambda>node result.
                appendDescendant_with (\<lambda>out n. appendSelectors sels ord out n rootv)
                                      ord result node)
             nodes []
      else fold (\<lambda>node result. appendSelectors sels ord result node rootv) nodes [])"
| "Select_loop [] ord result rootv = result"
| "Select_loop (s # rest) ord result rootv =
     Select_loop rest ord (Segment_Apply s ord result rootv) rootv"
| "PathQuery_Select (PathQuery segs isRoot) ord current rootv =
     (let start = (if \<not> isRoot then current else rootv)
      in Select_loop segs ord [start] rootv)"
| "FilterExpr_Eval (FilterExpr lo) ord current rootv = LogicalOr_Eval lo ord current rootv"
| "LogicalOr_Eval [] ord current rootv = False"
| "LogicalOr_Eval (la # rest) ord current rootv =
     (if LogicalAnd_Eval la ord current rootv then True
      else LogicalOr_Eval rest ord current rootv)"
| "LogicalAnd_Eval [] ord current rootv = True"
| "LogicalAnd_Eval (e # rest) ord current rootv =
     (if \<not> BasicExpr_Eval e ord current rootv then False
      else LogicalAnd_Eval rest ord current rootv)"
| "BasicExpr_Eval (ExistExpr q) ord current rootv =
     (if length (segments q) = 0 then True
      else length (PathQuery_Select q ord current rootv) > 0)"
| "BasicExpr_Eval (NonExistExpr q) ord current rootv =
     (if length (segments q) = 0 then False
      else length (PathQuery_Select q ord current rootv) = 0)"
| "BasicExpr_Eval (ParenExpr lo) ord current rootv = LogicalOr_Eval lo ord current rootv"
| "BasicExpr_Eval (NotParenExpr lo) ord current rootv =
     (\<not> LogicalOr_Eval lo ord current rootv)"
| "BasicExpr_Eval (NegFuncExpr fe) ord current rootv =
     (\<not> FuncExpr_Eval_result fe (FuncExpr_Call fe ord current rootv))"
| "BasicExpr_Eval (CompExpr l op r) ord current rootv =
     (let left = CompValue_Value l ord current rootv;
          right = CompValue_Value r ord current rootv
      in compare_values op left right)"
| "BasicExpr_Eval (FuncTestExpr fe) ord current rootv =
     FuncExpr_Eval_result fe (FuncExpr_Call fe ord current rootv)"
| "CompValue_Value (LiteralValue v) ord current rootv = v"
| "CompValue_Value (QueryValue q) ord current rootv =
     (let nodes = PathQuery_Select q ord current rootv
      in if length nodes \<noteq> 1 then VNothing else nodes ! 0)"
| "CompValue_Value (FuncValue fe) ord current rootv = FuncExpr_Call fe ord current rootv"
| "FuncExpr_Call (FuncExpr name fn args argTypes) ord current rootv =
     Call_of fn (evalArgs args ord argTypes 0 current rootv)"
| "evalArgs [] ord argTypes i current rootv = []"
| "evalArgs (arg # rest) ord argTypes i current rootv =
     evalArg arg ord argTypes i current rootv # evalArgs rest ord argTypes (Suc i) current rootv"
| "evalArg (ArgQuery a) ord argTypes i current rootv =
     (let nodes = PathQuery_Select a ord current rootv
      in if i < length argTypes \<and> argTypes ! i = FilterArg then VArr nodes
         else if PathQuery_IsSingular a then
           (if length nodes = 1 then nodes ! 0 else VNil)
         else VArr nodes)"
| "evalArg (ArgFunc a) ord argTypes i current rootv = FuncExpr_Call a ord current rootv"
| "evalArg (ArgComp a) ord argTypes i current rootv = CompValue_Value a ord current rootv"
| "evalArg (ArgOther v) ord argTypes i current rootv = v"

text \<open>\<open>FuncExpr.Eval\<close>: \<open>fe.Call\<close>, and the result read as a \<open>bool\<close>.\<close>

definition FuncExpr_Eval :: "FuncExpr \<Rightarrow> order \<Rightarrow> val \<Rightarrow> val \<Rightarrow> bool" where
  "FuncExpr_Eval fe ord current rootv =
     FuncExpr_Eval_result fe (FuncExpr_Call fe ord current rootv)"

section \<open>The evaluator of package jsonpath (jsonpath.go)\<close>

text \<open>
  The functions below take two orders: \<open>ord\<close> for the maps they range over
  themselves and \<open>ordf\<close> for the maps ranged over while a filter expression
  is evaluated.
\<close>

datatype PathElement = NameElement string | IndexElement int

type_synonym NormalizedPath = "PathElement list"

datatype LocatedNode = LocatedNode (node_Value: val) (node_Path: NormalizedPath)

record Path =
  query :: "PathQuery option"

definition extendPath :: "NormalizedPath \<Rightarrow> PathElement \<Rightarrow> NormalizedPath" where
  "extendPath path elem = path @ [elem]"

definition normalizeIndex :: "int \<Rightarrow> int \<Rightarrow> int" where
  "normalizeIndex idx len =
     (let idx = (if idx < 0 then idx + len else idx)
      in if idx < 0 \<or> idx \<ge> len then -1 else idx)"

definition normalizeSliceBounds :: "int \<Rightarrow> int \<Rightarrow> int \<Rightarrow> int \<Rightarrow> int \<times> int" where
  "normalizeSliceBounds start end step len =
     (let start =
            (if start < 0 then
               (let start = start + len
                in if start < 0 then (if step > 0 then 0 else start) else start)
             else if start \<ge> len then (if step < 0 then len - 1 else start)
             else start);
          end =
            (if end < 0 then
               (let end = end + len
                in if end < 0 \<and> step < 0 then -1 else end)
             else if end > len then len
             else end)
      in (start, end))"

definition sliceIndices :: "SliceArgs \<Rightarrow> int \<Rightarrow> int list" where
  "sliceIndices args len =
     (if len = 0 then []
      else
        let step = (if HasStep args then Step args else 1) in
        if step = 0 then []
        else
          let (start, end) =
                (if step > 0 then
                   (if HasStart args then Start args else 0,
                    if HasEnd args then End args else len)
                 else
                   (if HasStart args then Start args else len - 1,
                    if HasEnd args then End args else - len - 1));
              (start, end) = normalizeSliceBounds start end step len
          in
          if step > 0 then filter (\<lambda>i. i \<ge> 0 \<and> i < len) (loop_up start end step)
          else filter (\<lambda>i. i \<ge> 0 \<and> i < len) (loop_down start end step))"

definition appendSlice :: "val list \<Rightarrow> val list \<Rightarrow> SliceArgs \<Rightarrow> val list" where
  "appendSlice out arr args =
     fold (\<lambda>idx out. out @ [arr ! nat idx]) (sliceIndices args (int (length arr))) out"

fun appendSelector :: "order \<Rightarrow> order \<Rightarrow> val list \<Rightarrow> Selector \<Rightarrow> val \<Rightarrow> val \<Rightarrow> val list" where
  "appendSelector ord ordf out (Name name) node rootv =
     (case node of
        VObj m \<Rightarrow> (case map_of m name of Some v \<Rightarrow> out @ [v] | None \<Rightarrow> out)
      | _ \<Rightarrow> out)"
| "appendSelector ord ordf out (Index i) node rootv =
     (case node of
        VArr arr \<Rightarrow>
          (let idx = normalizeIndex i (int (length arr)) in
           if idx \<ge> 0 \<and> idx < int (length arr) then out @ [arr ! nat idx] else out)
      | _ \<Rightarrow> out)"
| "appendSelector ord ordf out (Slice a) node rootv =
     (case node of VArr arr \<Rightarrow> appendSlice out arr a | _ \<Rightarrow> out)"
| "appendSelector ord ordf out Wildcard node rootv =
     (case node of
        VObj v \<Rightarrow> fold (\<lambda>e out. out @ [snd e]) (range_map ord v) out
      | VArr v \<Rightarrow> out @ v
      | _ \<Rightarrow> out)"
| "appendSelector ord ordf out (Filter f) node rootv =
     (case node of
        VObj v \<Rightarrow>
          fold (\<lambda>e out. if FilterExpr_Eval f ordf (snd e) rootv then out @ [snd e] else out)
               (range_map ord v) out
      | VArr v \<Rightarrow>
          fold (\<lambda>val out. if FilterExpr_Eval f ordf val rootv then out @ [val] else out) v out
      | _ \<Rightarrow> out)"

definition appendSelectors_top ::
  "order \<Rightarrow> order \<Rightarrow> val list \<Rightarrow> Selector list \<Rightarrow> val \<Rightarrow> val \<Rightarrow> val list" where
  \<comment> \<open>\<open>appendSelectors\<close> of jsonpath.go\<close>
  "appendSelectors_top ord ordf out sels node rootv =
     fold (\<lambda>sel out. appendSelector ord ordf out sel node rootv) sels out"

definition appendDescendant ::
  "order \<Rightarrow> order \<Rightarrow> val list \<Rightarrow> Segment \<Rightarrow> val \<Rightarrow> val \<Rightarrow> val list" where
  \<comment> \<open>\<open>appendDescendant\<close> of jsonpath.go, the same recursion as in segment.go\<close>
  "appendDescendant ord ordf out seg node rootv =
     appendDescendant_with (\<lambda>out n. appendSelectors_top ord ordf out (selectors seg) n rootv)
                           ord out node"

definition applySegment :: "order \<Rightarrow> order \<Rightarrow> Segment \<Rightarrow> val list \<Rightarrow> val \<Rightarrow> val list" where
  "applySegment ord ordf seg nodes rootv =
     (if length nodes = 0 then nodes
      else if descendant seg then
        fold (\<lambda>n out. appendDescendant ord ordf out seg n rootv) nodes []
      else fold (\<lambda>n out. appendSelectors_top ord ordf out (selectors seg) n rootv) nodes [])"

text \<open>
  \<open>q.Segments()\<close> on the pointer \<open>q\<close>: reading the field of a \<open>nil\<close> pointer
  panics.
\<close>

definition PathQuery_Segments :: "PathQuery option \<Rightarrow> error + Segment list" where
  "PathQuery_Segments q = (case q of None \<Rightarrow> Inl ErrNilDereference | Some q \<Rightarrow> Inr (segments q))"

text \<open>
  \<open>Path.Select\<close>.  The result \<open>Inr None\<close> is the \<open>nil\<close> node list,
  \<open>Inr (Some res)\<close> the node list \<open>res\<close>, \<open>Inl e\<close> a panic.
\<close>

definition Path_Select :: "order \<Rightarrow> order \<Rightarrow> Path \<Rightarrow> val \<Rightarrow> error + val list option" where
  "Path_Select ord ordf p input =
     (if query p = None then Inr None
      else
        case PathQuery_Segments (query p) of
          Inl e \<Rightarrow> Inl e
        | Inr segs \<Rightarrow>
            Inr (Some (fold (\<lambda>seg res. applySegment ord ordf seg res input) segs [input])))"

definition appendSliceLocated ::
  "LocatedNode list \<Rightarrow> val list \<Rightarrow> NormalizedPath \<Rightarrow> SliceArgs \<Rightarrow> LocatedNode list" where
  "appendSliceLocated out arr path args =
     fold (\<lambda>idx out. out @ [LocatedNode (arr ! nat idx) (extendPath path (IndexElement idx))])
          (sliceIndices args (int (length arr))) out"

text \<open>\<open>for idx, val := range v\<close> over a slice visits \<open>enumerate 0 v\<close>.\<close>

fun appendSelectorLocated ::
  "order \<Rightarrow> order \<Rightarrow> LocatedNode list \<Rightarrow> Selector \<Rightarrow> val \<Rightarrow> NormalizedPath \<Rightarrow> val
   \<Rightarrow> LocatedNode list" where
  "appendSelectorLocated ord ordf out (Name name) node path rootv =
     (case node of
        VObj m \<Rightarrow>
          (case map_of m name of
             Some v \<Rightarrow> out @ [LocatedNode v (extendPath path (NameElement name))]
           | None \<Rightarrow> out)
      | _ \<Rightarrow> out)"
| "appendSelectorLocated ord ordf out (Index i) node path rootv =
     (case node of
        VArr arr \<Rightarrow>
          (let idx = normalizeIndex i (int (length arr)) in
           if idx \<ge> 0 \<and> idx < int (length arr)
           then out @ [LocatedNode (arr ! nat idx) (extendPath path (IndexElement idx))]
           else out)
      | _ \<Rightarrow> out)"
| "appendSelectorLocated ord ordf out (Slice a) node path rootv =
     (case node of VArr arr \<Rightarrow> appendSliceLocated out arr path a | _ \<Rightarrow> out)"
| "appendSelectorLocated ord ordf out Wildcard node path rootv =
     (case node of
        VObj v \<Rightarrow>
          fold (\<lambda>e out. out @ [LocatedNode (snd e) (extendPath path (NameElement (fst e)))])
               (range_map ord v) out
      | VArr v \<Rightarrow>
          fold (\<lambda>e out. out @ [LocatedNode (snd e) (extendPath path (IndexElement (int (fst e))))])
               (enumerate 0 v) out
      | _ \<Rightarrow> out)"
| "appendSelectorLocated ord ordf out (Filter f) node path rootv =
     (case node of
        VObj v \<Rightarrow>
          fold (\<lambda>e out.
                  if FilterExpr_Eval f ordf (snd e) rootv
                  then out @ [LocatedNode (snd e) (extendPath path (NameElement (fst e)))]
                  else out)
               (range_map ord v) out
      | VArr v \<Rightarrow>
          fold (\<lambda>e out.
                  if FilterExpr_Eval f ordf (snd e) rootv
                  then out @ [LocatedNode (snd e) (extendPath path (IndexElement (int (fst e))))]
                  else out)
               (enumerate 0 v) out
      | _ \<Rightarrow> out)"

definition appendSelectorsLocated ::
  "order \<Rightarrow> order \<Rightarrow> LocatedNode list \<Rightarrow> Selector list \<Rightarrow> val \<Rightarrow> NormalizedPath \<Rightarrow> val
   \<Rightarrow> LocatedNode list" where
  "appendSelectorsLocated ord ordf out sels node path rootv =
     fold (\<lambda>sel out. appendSelectorLocated ord ordf out sel node path rootv) sels out"

text \<open>
  \<open>appendDescendantLocated\<close>, for the function \<open>f\<close> that applies the selectors
  of the segment to one node at one path.
\<close>

function appendDescendantLocated_with ::
  "(LocatedNode list \<Rightarrow> val \<Rightarrow> NormalizedPath \<Rightarrow> LocatedNode list) \<Rightarrow> order
   \<Rightarrow> LocatedNode list \<Rightarrow> val \<Rightarrow> NormalizedPath \<Rightarrow> LocatedNode list" where
  "appendDescendantLocated_with f ord out node path =
     (let out = f out node path in
      case node of
        VObj v \<Rightarrow>
          fold (\<lambda>e out. appendDescendantLocated_with f ord out (snd e)
                           (extendPath path (NameElement (fst e))))
               (range_map ord v) out
      | VArr v \<Rightarrow>
          fold (\<lambda>e out. appendDescendantLocated_with f ord out (snd e)
                           (extendPath path (IndexElement (int (fst e)))))
               (enumerate 0 v) out
      | _ \<Rightarrow> out)"
  by pat_completeness auto
termination
proof (relation "measure (\<lambda>(f, ord, out, node, path). size node)")
  show "wf (measure (\<lambda>(f, ord, out, node, path). size node))"
    by simp
next
  fix f :: "LocatedNode list \<Rightarrow> val \<Rightarrow> NormalizedPath \<Rightarrow> LocatedNode list"
    and ord :: order and out node path x x7 xa and xb :: "LocatedNode list"
  assume node: "node = VObj x7" and mem: "xa \<in> set (range_map ord x7)"
  have "e \<in> set m \<Longrightarrow> size (snd e) < Suc (size_list (size_prod (\<lambda>x. 0) size) m)"
    for e :: "string \<times> val" and m
  proof (induction m)
    case Nil
    then show ?case by simp
  next
    case (Cons a m)
    show ?case
    proof (cases "e = a")
      case True
      then show ?thesis by (cases a) simp
    next
      case False
      with Cons have "size (snd e) < Suc (size_list (size_prod (\<lambda>x. 0) size) m)"
        by simp
      then show ?thesis by simp
    qed
  qed
  moreover from mem have "xa \<in> set x7"
    by (simp add: range_map_def)
  ultimately have "size (snd xa) < Suc (size_list (size_prod (\<lambda>x. 0) size) x7)"
    by blast
  with node
  show "((f, ord, xb, snd xa, extendPath path (NameElement (fst xa))), f, ord, out, node, path)
        \<in> measure (\<lambda>(f, ord, out, node, path). size node)"
    by simp
next
  fix f :: "LocatedNode list \<Rightarrow> val \<Rightarrow> NormalizedPath \<Rightarrow> LocatedNode list"
    and ord :: order and out node path x x6 and xa :: "nat \<times> val" and xb :: "LocatedNode list"
  assume node: "node = VArr x6" and mem: "xa \<in> set (enumerate 0 x6)"
  from mem have "snd xa \<in> snd ` set (enumerate 0 x6)"
    by (rule imageI)
  then have "snd xa \<in> set (map snd (enumerate 0 x6))"
    by (simp only: set_map)
  then have "snd xa \<in> set x6"
    by (simp only: map_snd_enumerate)
  then have "size (snd xa) < Suc (size_list size x6)"
    by (induction x6) auto
  with node
  show "((f, ord, xb, snd xa, extendPath path (IndexElement (int (fst xa)))), f, ord, out, node, path)
        \<in> measure (\<lambda>(f, ord, out, node, path). size node)"
    by simp
qed

declare appendDescendantLocated_with.simps [simp del]

definition appendDescendantLocated ::
  "order \<Rightarrow> order \<Rightarrow> LocatedNode list \<Rightarrow> Segment \<Rightarrow> val \<Rightarrow> NormalizedPath \<Rightarrow> val
   \<Rightarrow> LocatedNode list" where
  "appendDescendantLocated ord ordf out seg node path rootv =
     appendDescendantLocated_with
       (\<lambda>out n p. appendSelectorsLocated ord ordf out (selectors seg) n p rootv) ord out node path"

definition applySegmentLocated ::
  "order \<Rightarrow> order \<Rightarrow> Segment \<Rightarrow> LocatedNode list \<Rightarrow> val \<Rightarrow> LocatedNode list" where
  "applySegmentLocated ord ordf seg nodes rootv =
     (if length nodes = 0 then nodes
      else if descendant seg then
        fold (\<lambda>n out. appendDescendantLocated ord ordf out seg (node_Value n) (node_Path n) rootv)
             nodes []
      else
        fold (\<lambda>n out. appendSelectorsLocated ord ordf out (selectors seg)
                         (node_Value n) (node_Path n) rootv)
             nodes [])"

definition Path_SelectLocated ::
  "order \<Rightarrow> order \<Rightarrow> Path \<Rightarrow> val \<Rightarrow> error + LocatedNode list option" where
  "Path_SelectLocated ord ordf p input =
     (if query p = None then Inr None
      else
        case PathQuery_Segments (query p) of
          Inl e \<Rightarrow> Inl e
        | Inr segs \<Rightarrow>
            Inr (Some (fold (\<lambda>seg res. applySegmentLocated ord ordf seg res input) segs
                            [LocatedNode input []])))"

section \<open>Canonical strings (writeTo, String)\<close>

text \<open>
  Strings are sequences of bytes.  The functions of the Go library used by
  \<open>writeTo\<close> are modelled after their documentation: \<open>utf8.DecodeRuneInString\<close>
  (the first rune and its width; \<open>RuneError\<close> with width 1 for an invalid
  encoding), \<open>utf8.AppendRune\<close>, \<open>strconv.FormatInt\<close> in base 10 and
  \<open>strconv.Quote\<close>.  \<open>strconv.IsPrint\<close> is given for runes up to \<open>0xFF\<close>;
  above, it is the parameter \<open>pr\<close> (a table of the Unicode standard).
\<close>

definition RuneError :: int where
  "RuneError = 0xFFFD"

definition cont_byte :: "int \<Rightarrow> bool" where
  "cont_byte b = (0x80 \<le> b \<and> b \<le> 0xBF)"

fun DecodeRuneInString :: "string \<Rightarrow> int \<times> nat" where
  "DecodeRuneInString [] = (RuneError, 0)"
| "DecodeRuneInString (c0 # rest) =
     (let b0 = (of_char c0 :: int) in
      if b0 < 0x80 then (b0, 1)
      else if b0 < 0xC2 \<or> 0xF4 < b0 then (RuneError, 1)
      else if b0 < 0xE0 then
        (case rest of
           c1 # _ \<Rightarrow>
             (let b1 = of_char c1 in
              if cont_byte b1 then ((b0 mod 32) * 64 + b1 mod 64, 2) else (RuneError, 1))
         | _ \<Rightarrow> (RuneError, 1))
      else if b0 < 0xF0 then
        (case rest of
           c1 # c2 # _ \<Rightarrow>
             (let b1 = of_char c1; b2 = of_char c2;
                  lo = (if b0 = 0xE0 then 0xA0 else 0x80);
                  hi = (if b0 = 0xED then 0x9F else 0xBF)
              in if lo \<le> b1 \<and> b1 \<le> hi \<and> cont_byte b2
                 then (((b0 mod 16) * 64 + b1 mod 64) * 64 + b2 mod 64, 3)
                 else (RuneError, 1))
         | _ \<Rightarrow> (RuneError, 1))
      else
        (case rest of
           c1 # c2 # c3 # _ \<Rightarrow>
             (let b1 = of_char c1; b2 = of_char c2; b3 = of_char c3;
                  lo = (if b0 = 0xF0 then 0x90 else 0x80);
                  hi = (if b0 = 0xF4 then 0x8F else 0xBF)
              in if lo \<le> b1 \<and> b1 \<le> hi \<and> cont_byte b2 \<and> cont_byte b3
                 then ((((b0 mod 8) * 64 + b1 mod 64) * 64 + b2 mod 64) * 64 + b3 mod 64, 4)
                 else (RuneError, 1))
         | _ \<Rightarrow> (RuneError, 1)))"

definition byte :: "int \<Rightarrow> char" where
  "byte n = char_of n"

definition AppendRune :: "int \<Rightarrow> string" where
  "AppendRune r =
     (if 0 \<le> r \<and> r < 0x80 then [byte r]
      else if 0 \<le> r \<and> r < 0x800 then [byte (0xC0 + r div 64), byte (0x80 + r mod 64)]
      else if r < 0 \<or> 0x10FFFF < r \<or> (0xD800 \<le> r \<and> r \<le> 0xDFFF)
      then [byte 0xEF, byte 0xBF, byte 0xBD]
      else if r < 0x10000
      then [byte (0xE0 + r div 4096), byte (0x80 + (r div 64) mod 64), byte (0x80 + r mod 64)]
      else [byte (0xF0 + r div 262144), byte (0x80 + (r div 4096) mod 64),
            byte (0x80 + (r div 64) mod 64), byte (0x80 + r mod 64)])"

definition digit_char :: "nat \<Rightarrow> char" where
  "digit_char d = char_of (48 + d)"

fun decimal :: "nat \<Rightarrow> string" where
  "decimal n = (if n < 10 then [digit_char n] else decimal (n div 10) @ [digit_char (n mod 10)])"

declare decimal.simps [simp del]

definition FormatInt :: "int \<Rightarrow> string" where
  "FormatInt i = (if i < 0 then CHR ''-'' # decimal (nat (- i)) else decimal (nat i))"

definition hex_char :: "int \<Rightarrow> char" where
  "hex_char d = (if d < 10 then char_of (48 + d) else char_of (87 + d))"

fun hex_digits :: "nat \<Rightarrow> int \<Rightarrow> string" where
  "hex_digits 0 r = []"
| "hex_digits (Suc n) r = hex_digits n (r div 16) @ [hex_char (r mod 16)]"

definition IsPrint :: "(int \<Rightarrow> bool) \<Rightarrow> int \<Rightarrow> bool" where
  "IsPrint pr r =
     (if r \<le> 0xFF then
        (if 0x20 \<le> r \<and> r \<le> 0x7E then True
         else if 0xA1 \<le> r \<and> r \<le> 0xFF then r \<noteq> 0xAD
         else False)
      else pr r)"

definition appendEscapedRune :: "(int \<Rightarrow> bool) \<Rightarrow> int \<Rightarrow> string" where
  "appendEscapedRune pr r =
     (if r = 0x22 \<or> r = 0x5C then [CHR 0x5C, byte r]
      else if IsPrint pr r then AppendRune r
      else if r = 0x07 then [CHR 0x5C, CHR ''a'']
      else if r = 0x08 then [CHR 0x5C, CHR ''b'']
      else if r = 0x0C then [CHR 0x5C, CHR ''f'']
      else if r = 0x0A then [CHR 0x5C, CHR ''n'']
      else if r = 0x0D then [CHR 0x5C, CHR ''r'']
      else if r = 0x09 then [CHR 0x5C, CHR ''t'']
      else if r = 0x0B then [CHR 0x5C, CHR ''v'']
      else if r < 0x20 \<or> r = 0x7F then [CHR 0x5C, CHR ''x''] @ hex_digits 2 r
      else if r < 0x10000 then [CHR 0x5C, CHR ''u''] @ hex_digits 4 r
      else [CHR 0x5C, CHR ''U''] @ hex_digits 8 r)"

fun Quote_loop :: "(int \<Rightarrow> bool) \<Rightarrow> string \<Rightarrow> string" where
  "Quote_loop pr [] = []"
| "Quote_loop pr (c # cs) =
     (let (r, width) = DecodeRuneInString (c # cs) in
      (if width = 1 \<and> r = RuneError then [CHR 0x5C, CHR ''x''] @ hex_digits 2 (of_char c)
       else appendEscapedRune pr r)
      @ Quote_loop pr (drop (width - 1) cs))"

definition Quote :: "(int \<Rightarrow> bool) \<Rightarrow> string \<Rightarrow> string" where
  "Quote pr s = [CHR 0x22] @ Quote_loop pr s @ [CHR 0x22]"

text \<open>
  A \<open>strings.Builder\<close> is the string written so far; \<open>writeTo\<close> returns the
  builder after its writes.
\<close>

definition SliceArgs_writeTo :: "SliceArgs \<Rightarrow> string \<Rightarrow> string" where
  "SliceArgs_writeTo a buf =
     (let buf = (if HasStart a then buf @ FormatInt (Start a) else buf);
          buf = buf @ '':'';
          buf = (if HasEnd a then buf @ FormatInt (End a) else buf)
      in if HasStep a then buf @ '':'' @ FormatInt (Step a) else buf)"

fun Selector_writeTo :: "(int \<Rightarrow> bool) \<Rightarrow> Selector \<Rightarrow> string \<Rightarrow> string" where
  "Selector_writeTo pr (Name name) buf = buf @ Quote pr name"
| "Selector_writeTo pr (Index i) buf = buf @ FormatInt i"
| "Selector_writeTo pr (Slice a) buf = SliceArgs_writeTo a buf"
| "Selector_writeTo pr Wildcard buf = buf @ ''*''"
| "Selector_writeTo pr (Filter f) buf = buf @ ''?''"

definition Segment_writeTo :: "(int \<Rightarrow> bool) \<Rightarrow> Segment \<Rightarrow> string \<Rightarrow> string" where
  "Segment_writeTo pr s buf =
     (let buf = (if descendant s then buf @ ''..'' else buf);
          buf = buf @ ''['';
          buf = fold (\<lambda>(i, sel) buf.
                        Selector_writeTo pr sel (if i > 0 then buf @ '','' else buf))
                     (enumerate 0 (selectors s)) buf
      in buf @ '']'')"

definition PathQuery_writeTo :: "(int \<Rightarrow> bool) \<Rightarrow> PathQuery \<Rightarrow> string \<Rightarrow> string" where
  "PathQuery_writeTo pr q buf =
     (let buf = (if IsRoot q then buf @ ''$'' else buf @ ''@'')
      in fold (\<lambda>seg buf. Segment_writeTo pr seg buf) (segments q) buf)"

text \<open>\<open>q.String()\<close> on the pointer \<open>q\<close>; a \<open>nil\<close> pointer panics when \<open>q.root\<close> is read.\<close>

definition PathQuery_String :: "(int \<Rightarrow> bool) \<Rightarrow> PathQuery option \<Rightarrow> error + string" where
  "PathQuery_String pr q =
     (case q of None \<Rightarrow> Inl ErrNilDereference | Some q \<Rightarrow> Inr (PathQuery_writeTo pr q []))"

definition Path_String :: "(int \<Rightarrow> bool) \<Rightarrow> Path \<Rightarrow> error + string" where
  "Path_String pr p = (if query p = None then Inr [] else PathQuery_String pr (query p))"

section \<open>The slice selector as the specification describes it\<close>

definition clamp :: "int \<Rightarrow> int \<Rightarrow> int \<Rightarrow> int" where
  "clamp lo hi x = (if x < lo then lo else if x > hi then hi else x)"

text \<open>
  The indices selected from an array of length \<open>L\<close> by the procedure of the
  specification: defaults, one normalisation of negative bounds, clamping,
  iteration.  \<open>start_lo\<close> is the lower bound of the clamp of \<open>start\<close> for a
  negative step: the specification says \<open>0\<close> (\<open>slice_spec\<close>).
\<close>

definition slice_procedure :: "int \<Rightarrow> SliceArgs \<Rightarrow> int \<Rightarrow> int list" where
  "slice_procedure start_lo a L =
     (let step = (if HasStep a then Step a else 1) in
      if step = 0 then []
      else if step > 0 then
        let start = (if HasStart a then Start a else 0);
            end = (if HasEnd a then End a else L);
            start = (if start < 0 then start + L else start);
            end = (if end < 0 then end + L else end)
        in loop_up (clamp 0 L start) (clamp 0 L end) step
      else
        let start = (if HasStart a then Start a else L - 1);
            end = (if HasEnd a then End a else - L - 1);
            start = (if start < 0 then start + L else start);
            end = (if end < 0 then end + L else end)
        in loop_down (clamp start_lo (L - 1) start) (clamp (-1) (L - 1) end) step)"

definition slice_spec :: "SliceArgs \<Rightarrow> int \<Rightarrow> int list" where
  "slice_spec a L = slice_procedure 0 a L"

text \<open>
  RFC 9535, section 2.3.4.3, clamps both bounds of a slice with a negative
  step into \<open>[-1, L-1]\<close>.
\<close>

definition slice_rfc :: "SliceArgs \<Rightarrow> int \<Rightarrow> int list" where
  "slice_rfc a L = slice_procedure (-1) a L"

section \<open>Predicates used in the statements\<close>

fun isString :: "val \<Rightarrow> bool" where
  "isString (VStr _) = True"
| "isString _ = False"

fun isBool :: "val \<Rightarrow> bool" where
  "isBool (VBool _) = True"
| "isBool _ = False"


section \<open>Properties\<close>

lemma sameType_cases:
  "sameType a b \<Longrightarrow>
     (isNumeric a \<and> isNumeric b) \<or> (isString a \<and> isString b) \<or> (isNull a \<and> isNull b)
     \<or> (isBool a \<and> isBool b)"
  by (cases a; cases b) (simp_all add: sameType_def)

text \<open>
  Claim C1, as amended.  A filter comparison with operator \<open><\<close>, \<open><=\<close>, \<open>>\<close>
  or \<open>>=\<close> evaluates to false whenever its two operand values are neither
  both numeric, nor both strings, nor both null, nor both booleans.  (For two
  booleans \<open>sameType\<close> holds, and the comparison is decided by \<open>lessThan\<close> and
  \<open>equalTo\<close>.)
\<close>

theorem C1_ordering_incompatible_false:
  assumes "op \<in> {Less, LessEqual, Greater, GreaterEqual}"
    and "left = CompValue_Value l ord current rootv"
    and "right = CompValue_Value r ord current rootv"
    and "\<not> (isNumeric left \<and> isNumeric right)"
    and "\<not> (isString left \<and> isString right)"
    and "\<not> (isNull left \<and> isNull right)"
    and "\<not> (isBool left \<and> isBool right)"
  shows "\<not> BasicExpr_Eval (CompExpr l op r) ord current rootv"
proof -
  from assms(4-7) have "\<not> sameType left right"
    using sameType_cases by blast
  with assms(1-3) show ?thesis
    by (auto simp: Let_def)
qed

text \<open>The theorem at the operands \<open>"a"\<close> and \<open>1\<close> of \<open>"a" < 1\<close>.\<close>

theorem C1_witness:
  "Less \<in> {Less, LessEqual, Greater, GreaterEqual}
   \<and> \<not> (isNumeric (VStr ''a'') \<and> isNumeric (VInt 1))
   \<and> \<not> (isString (VStr ''a'') \<and> isString (VInt 1))
   \<and> \<not> (isNull (VStr ''a'') \<and> isNull (VInt 1))
   \<and> \<not> (isBool (VStr ''a'') \<and> isBool (VInt 1))
   \<and> \<not> BasicExpr_Eval (CompExpr (LiteralValue (VStr ''a'')) Less (LiteralValue (VInt 1)))
           list_order VNil VNil"
  using C1_ordering_incompatible_false
          [of Less "VStr ''a''" "LiteralValue (VStr ''a'')" list_order VNil VNil
              "VInt 1" "LiteralValue (VInt 1)"]
  by simp

text \<open>
  Claim C1 as stated includes two boolean operands; there \<open>true <= true\<close>
  evaluates to true.
\<close>

theorem C1_counterexample:
  "LessEqual \<in> {Less, LessEqual, Greater, GreaterEqual}
   \<and> \<not> (isNumeric (VBool True) \<and> isNumeric (VBool True))
   \<and> \<not> (isString (VBool True) \<and> isString (VBool True))
   \<and> \<not> (isNull (VBool True) \<and> isNull (VBool True))
   \<and> BasicExpr_Eval (CompExpr (LiteralValue (VBool True)) LessEqual (LiteralValue (VBool True)))
         list_order VNil VNil"
  by (simp add: sameType_def lessThan_def isNoValue_def)

text \<open>For two different booleans \<open>>\<close> holds in both directions.\<close>

lemma ordering_of_booleans:
  "BasicExpr_Eval (CompExpr (LiteralValue (VBool True)) Greater (LiteralValue (VBool False)))
     list_order VNil VNil
   \<and> BasicExpr_Eval (CompExpr (LiteralValue (VBool False)) Greater (LiteralValue (VBool True)))
     list_order VNil VNil"
  by (simp add: sameType_def lessThan_def isNoValue_def)

text \<open>
  Claim C4 fails on the code.  In the filter \<open>@.a == @.b\<close> at the current node
  \<open>{"b": null}\<close> the left operand is \<open>Nothing\<close> (the query selects no node) and
  the right operand is the JSON null of the document, the Go value \<open>nil\<close>;
  \<open>equalTo\<close> counts \<open>nil\<close> as "no value", and the comparison is true.
\<close>

theorem C4_nothing_equals_document_null:
  "CompValue_Value (QueryValue (PathQuery [Segment [Name ''a''] False] False))
     list_order (VObj [(''b'', VNil)]) (VArr [VObj [(''b'', VNil)]]) = VNothing
   \<and> CompValue_Value (QueryValue (PathQuery [Segment [Name ''b''] False] False))
     list_order (VObj [(''b'', VNil)]) (VArr [VObj [(''b'', VNil)]]) = VNil
   \<and> BasicExpr_Eval
       (CompExpr (QueryValue (PathQuery [Segment [Name ''a''] False] False)) Equal
                 (QueryValue (PathQuery [Segment [Name ''b''] False] False)))
       list_order (VObj [(''b'', VNil)]) (VArr [VObj [(''b'', VNil)]])"
  by (simp add: isNoValue_def)

text \<open>
  \<open>Nothing\<close> equals \<open>Nothing\<close> and \<open>nil\<close>, and no other value: not the literal
  \<open>null\<close>, nor a boolean, a number, a string, an array or an object.
\<close>

lemma equalTo_Nothing: "equalTo VNothing b = (b = VNothing \<or> b = VNil)"
  by (cases b) (simp_all add: isNoValue_def)

lemma Selector_Apply_singular:
  "Selector_IsSingular s \<Longrightarrow> length (Selector_Apply s ord [] node rootv) \<le> 1"
  by (cases s) (auto split: val.splits option.splits simp: Let_def)

lemma Segment_Apply_singular:
  assumes "Segment_IsSingular s" and "length nodes \<le> 1"
  shows "length (Segment_Apply s ord nodes rootv) \<le> 1"
proof -
  obtain sels desc where s: "s = Segment sels desc" by (cases s)
  from assms(1) s obtain sel where sels: "sels = [sel]" and sing: "Selector_IsSingular sel"
    and nd: "\<not> desc"
    by (cases sels) (auto simp: Segment_IsSingular_def split: if_splits)
  from assms(2) consider "nodes = []" | n where "nodes = [n]"
    by (cases nodes) auto
  then show ?thesis
  proof cases
    case 1
    then show ?thesis using s by simp
  next
    case 2
    then show ?thesis
      using s sels nd Selector_Apply_singular [OF sing] by simp
  qed
qed

lemma Select_loop_singular:
  "IsSingular_loop segs \<Longrightarrow> length nodes \<le> 1 \<Longrightarrow> length (Select_loop segs ord nodes rootv) \<le> 1"
proof (induction segs arbitrary: nodes)
  case Nil
  then show ?case by simp
next
  case (Cons s segs)
  from Cons.prems(1) have sing: "Segment_IsSingular s" and rest: "IsSingular_loop segs"
    by (auto split: if_splits)
  show ?case
    using Cons.IH [OF rest Segment_Apply_singular [OF sing Cons.prems(2)]] by simp
qed

lemma applySegment_singular:
  assumes "Segment_IsSingular s" and "length nodes \<le> 1"
  shows "length (applySegment ord ordf s nodes rootv) \<le> 1"
proof -
  from assms(1) obtain sel where sels: "selectors s = [sel]" and sing: "Selector_IsSingular sel"
    and nd: "\<not> descendant s"
    by (cases "selectors s") (auto simp: Segment_IsSingular_def split: if_splits)
  have one: "length (appendSelector ord ordf [] sel n rootv) \<le> 1" for n
    using sing by (cases sel) (auto split: val.splits option.splits simp: Let_def)
  from assms(2) consider "nodes = []" | n where "nodes = [n]"
    by (cases nodes) auto
  then show ?thesis
  proof cases
    case 1
    then show ?thesis by (simp add: applySegment_def)
  next
    case 2
    then show ?thesis
      using sels nd one [of n] by (simp add: applySegment_def appendSelectors_top_def)
  qed
qed

lemma fold_applySegment_singular:
  "IsSingular_loop segs \<Longrightarrow> length nodes \<le> 1
   \<Longrightarrow> length (fold (\<lambda>seg res. applySegment ord ordf seg res input) segs nodes) \<le> 1"
proof (induction segs arbitrary: nodes)
  case Nil
  then show ?case by simp
next
  case (Cons s segs)
  from Cons.prems(1) have sing: "Segment_IsSingular s" and rest: "IsSingular_loop segs"
    by (auto split: if_splits)
  show ?case
    using Cons.IH [OF rest applySegment_singular [OF sing Cons.prems(2)]] by simp
qed

text \<open>
  Claim C8.  A query for which \<open>IsSingular\<close> holds selects at most one node,
  for every document and current node: in \<open>PathQuery.Select\<close>, the evaluator
  of filter expressions, and in \<open>Path.Select\<close>.
\<close>

theorem C8_singular_query_at_most_one_node:
  assumes "PathQuery_IsSingular q"
  shows "length (PathQuery_Select q ord current rootv) \<le> 1
         \<and> (\<exists>res. Path_Select ord ordf \<lparr>query = Some q\<rparr> input = Inr (Some res)
                   \<and> length res \<le> 1)"
proof -
  obtain segs isRoot where q: "q = PathQuery segs isRoot" by (cases q)
  with assms have sing: "IsSingular_loop segs"
    by (simp add: PathQuery_IsSingular_def)
  have "length (PathQuery_Select q ord current rootv) \<le> 1"
    using q Select_loop_singular [OF sing] by simp
  moreover have "length (fold (\<lambda>seg res. applySegment ord ordf seg res input) segs [input]) \<le> 1"
    using fold_applySegment_singular [OF sing] by simp
  ultimately show ?thesis
    using q by (simp add: Path_Select_def PathQuery_Segments_def)
qed

text \<open>The theorem at the query \<open>$["a"][0]\<close> and the document \<open>{"a": [1, 2]}\<close>.\<close>

theorem C8_witness:
  "PathQuery_IsSingular (PathQuery [Segment [Name ''a''] False, Segment [Index 0] False] True)
   \<and> PathQuery_Select (PathQuery [Segment [Name ''a''] False, Segment [Index 0] False] True)
        list_order VNil (VObj [(''a'', VArr [VInt 1, VInt 2])]) = [VInt 1]
   \<and> length (PathQuery_Select (PathQuery [Segment [Name ''a''] False, Segment [Index 0] False] True)
        list_order VNil (VObj [(''a'', VArr [VInt 1, VInt 2])])) \<le> 1"
  using C8_singular_query_at_most_one_node
          [of "PathQuery [Segment [Name ''a''] False, Segment [Index 0] False] True"
              list_order VNil "VObj [(''a'', VArr [VInt 1, VInt 2])]"]
  by (simp add: PathQuery_IsSingular_def Segment_IsSingular_def)











subsection \<open>Independence of the order of map iteration\<close>

























subsection \<open>Slices\<close>

lemma loop_up_empty: "e \<le> i \<Longrightarrow> loop_up i e step = []"
  by (subst loop_up.simps) simp

lemma loop_down_empty: "i \<le> e \<Longrightarrow> loop_down i e step = []"
  by (subst loop_down.simps) simp

lemma loop_up_bounds: "x \<in> set (loop_up i e step) \<Longrightarrow> i \<le> x \<and> x < e"
proof (induction i e step rule: loop_up.induct)
  case (1 i e step)
  show ?case
  proof (cases "0 < step \<and> i < e")
    case True
    with "1.prems" have "x = i \<or> x \<in> set (loop_up (i + step) e step)"
      by (subst (asm) loop_up.simps) simp
    then show ?thesis
      using "1.IH" [OF True] True by auto
  next
    case False
    with "1.prems" show ?thesis by (subst (asm) loop_up.simps) simp
  qed
qed

lemma loop_down_bounds: "x \<in> set (loop_down i e step) \<Longrightarrow> e < x \<and> x \<le> i"
proof (induction i e step rule: loop_down.induct)
  case (1 i e step)
  show ?case
  proof (cases "step < 0 \<and> e < i")
    case True
    with "1.prems" have "x = i \<or> x \<in> set (loop_down (i + step) e step)"
      by (subst (asm) loop_down.simps) simp
    then show ?thesis
      using "1.IH" [OF True] True by auto
  next
    case False
    with "1.prems" show ?thesis by (subst (asm) loop_down.simps) simp
  qed
qed

lemma filter_loop_up:
  "0 \<le> i \<Longrightarrow> e \<le> L \<Longrightarrow> filter (\<lambda>x. 0 \<le> x \<and> x < L) (loop_up i e step) = loop_up i e step"
  by (rule filter_True) (use loop_up_bounds in fastforce)

lemma filter_loop_down:
  "- 1 \<le> e \<Longrightarrow> i < L \<Longrightarrow> filter (\<lambda>x. 0 \<le> x \<and> x < L) (loop_down i e step) = loop_down i e step"
  by (rule filter_True) (use loop_down_bounds in fastforce)

lemma sliceIndices_up:
  assumes "0 \<le> L" and "0 < step"
  shows "(case normalizeSliceBounds start end step L of (s, e) \<Rightarrow>
            filter (\<lambda>i. 0 \<le> i \<and> i < L) (loop_up s e step))
         = loop_up (clamp 0 L (if start < 0 then start + L else start))
                   (clamp 0 L (if end < 0 then end + L else end)) step"
proof -
  define s where "s = fst (normalizeSliceBounds start end step L)"
  define e where "e = snd (normalizeSliceBounds start end step L)"
  define s' where "s' = clamp 0 L (if start < 0 then start + L else start)"
  define e' where "e' = clamp 0 L (if end < 0 then end + L else end)"
  have s0: "0 \<le> s" and eL: "e \<le> L"
    using assms by (auto simp: s_def e_def normalizeSliceBounds_def Let_def)
  have rel: "(s = s' \<or> (L < s \<and> s' = L)) \<and> (e = e' \<or> (e < 0 \<and> e' = 0))"
    using assms by (auto simp: s_def e_def s'_def e'_def normalizeSliceBounds_def Let_def clamp_def)
  have e'L: "e' \<le> L" and s'0: "0 \<le> s'"
    using assms by (auto simp: e'_def s'_def clamp_def)
  have "loop_up s e step = loop_up s' e' step"
  proof -
    consider "s = s'" "e = e'" | "L < s" "s' = L" | "e < 0" "e' = 0"
      using rel by blast
    then show ?thesis
    proof cases
      case 1
      then show ?thesis by simp
    next
      case 2
      then show ?thesis using eL e'L by (simp add: loop_up_empty)
    next
      case 3
      then show ?thesis using s0 s'0 by (simp add: loop_up_empty)
    qed
  qed
  moreover have "filter (\<lambda>i. 0 \<le> i \<and> i < L) (loop_up s e step) = loop_up s e step"
    using s0 eL by (rule filter_loop_up)
  ultimately show ?thesis
    by (simp add: s_def e_def s'_def e'_def split_beta)
qed

lemma sliceIndices_down:
  assumes "0 \<le> L" and "step < 0"
  shows "(case normalizeSliceBounds start end step L of (s, e) \<Rightarrow>
            filter (\<lambda>i. 0 \<le> i \<and> i < L) (loop_down s e step))
         = loop_down (clamp (-1) (L - 1) (if start < 0 then start + L else start))
                     (clamp (-1) (L - 1) (if end < 0 then end + L else end)) step"
proof -
  define s where "s = fst (normalizeSliceBounds start end step L)"
  define e where "e = snd (normalizeSliceBounds start end step L)"
  define s' where "s' = clamp (-1) (L - 1) (if start < 0 then start + L else start)"
  define e' where "e' = clamp (-1) (L - 1) (if end < 0 then end + L else end)"
  have sL: "s < L" and e1: "-1 \<le> e"
    using assms by (auto simp: s_def e_def normalizeSliceBounds_def Let_def)
  have rel: "(s = s' \<or> (s < -1 \<and> s' = -1)) \<and> (e = e' \<or> (e = L \<and> e' = L - 1))"
    using assms by (auto simp: s_def e_def s'_def e'_def normalizeSliceBounds_def Let_def clamp_def)
  have e'1: "-1 \<le> e'" and s'L: "s' < L"
    using assms by (auto simp: e'_def s'_def clamp_def)
  have "loop_down s e step = loop_down s' e' step"
  proof -
    consider "s = s'" "e = e'" | "s < -1" "s' = -1" | "e = L" "e' = L - 1"
      using rel by blast
    then show ?thesis
    proof cases
      case 1
      then show ?thesis by simp
    next
      case 2
      then show ?thesis using e1 e'1 by (simp add: loop_down_empty)
    next
      case 3
      then show ?thesis using sL s'L by (simp add: loop_down_empty)
    qed
  qed
  moreover have "filter (\<lambda>i. 0 \<le> i \<and> i < L) (loop_down s e step) = loop_down s e step"
    using e1 sL by (rule filter_loop_down)
  ultimately show ?thesis
    by (simp add: s_def e_def s'_def e'_def split_beta)
qed

lemma slice_rfc_empty: "slice_rfc a 0 = []"
  by (simp add: slice_rfc_def slice_procedure_def Let_def clamp_def loop_up_empty loop_down_empty)

lemma sliceIndices_rfc:
  assumes "0 \<le> L"
  shows "sliceIndices a L = slice_rfc a L"
proof (cases "L = 0")
  case True
  then show ?thesis by (simp add: sliceIndices_def slice_rfc_empty)
next
  case False
  with assms have L: "0 < L" by simp
  show ?thesis
  proof (cases "(if HasStep a then Step a else 1) = 0")
    case True
    then show ?thesis using False
      by (simp add: sliceIndices_def slice_rfc_def slice_procedure_def)
  next
    case nz: False
    show ?thesis
    proof (cases "0 < (if HasStep a then Step a else 1)")
      case True
      then show ?thesis
        using False nz sliceIndices_up [OF assms True]
        by (simp add: sliceIndices_def slice_rfc_def slice_procedure_def Let_def)
    next
      case False
      with nz have neg: "(if HasStep a then Step a else 1) < 0" by simp
      show ?thesis
        using \<open>L \<noteq> 0\<close> nz False sliceIndices_down [OF assms neg]
        by (simp add: sliceIndices_def slice_rfc_def slice_procedure_def Let_def)
    qed
  qed
qed

lemma slice_rfc_bounds:
  assumes "0 \<le> L" and "i \<in> set (slice_rfc a L)"
  shows "0 \<le> i \<and> i < L"
proof -
  from assms have "i \<in> set (sliceIndices a L)"
    by (simp add: sliceIndices_rfc)
  then show ?thesis
    by (auto simp: sliceIndices_def Let_def split_beta split: if_splits)
qed

lemma fold_snoc_map: "fold (\<lambda>x out. out @ [g x]) xs out = out @ map g xs"
  by (induction xs arbitrary: out) auto

lemma appendSlice_rfc:
  "appendSlice out arr a = out @ map (\<lambda>i. arr ! nat i) (slice_rfc a (int (length arr)))"
  by (simp add: appendSlice_def fold_snoc_map sliceIndices_rfc)

lemma applySlice_indices_spec: "0 < L \<Longrightarrow> applySlice_indices a L = slice_spec a L"
  unfolding applySlice_indices_def slice_spec_def slice_procedure_def Let_def clamp_def
  by (cases "HasStep a"; cases "HasStart a"; cases "HasEnd a") (simp_all add: loop_up_empty loop_down_empty not_less)

text \<open>
  Claim C2 fails on the code: for a negative step \<open>normalizeSliceBounds\<close> does
  not raise a \<open>start\<close> that is still negative after normalisation to \<open>0\<close>.
  The slice \<open>[-10::-1]\<close> of an array of length 5 selects nothing, where the
  procedure of the claim selects index \<open>0\<close>.
\<close>

theorem C2_counterexample:
  "sliceIndices \<lparr>Start = -10, End = 0, Step = -1, HasStart = True, HasEnd = False, HasStep = True\<rparr> 5
     = []
   \<and> slice_spec \<lparr>Start = -10, End = 0, Step = -1, HasStart = True, HasEnd = False, HasStep = True\<rparr> 5
     = [0]
   \<and> Path_Select list_order list_order
        \<lparr>query = Some (PathQuery [Segment [Slice \<lparr>Start = -10, End = 0, Step = -1, HasStart = True,
                                                   HasEnd = False, HasStep = True\<rparr>] False] True)\<rparr>
        (VArr [VInt 1, VInt 2, VInt 3, VInt 4, VInt 5]) = Inr (Some [])"
  by code_simp

text \<open>
  Claim C2, as amended.  For every slice selector applied by the top-level
  evaluator to an array of length \<open>L\<close>: \<open>step\<close> defaults to 1 and \<open>step = 0\<close>
  yields the empty sequence; for \<open>step > 0\<close>, \<open>start\<close> defaults to \<open>0\<close> and
  \<open>end\<close> to \<open>L\<close>, for \<open>step < 0\<close>, \<open>start\<close> defaults to \<open>L-1\<close> and \<open>end\<close> to
  \<open>-L-1\<close>; negative bounds are normalised once by adding \<open>L\<close>; the elements
  appended are \<open>arr[i]\<close> for the \<open>i\<close> of the iteration from the bounds clamped
  into \<open>[0, L]\<close> for \<open>step > 0\<close> and, both of them, into \<open>[-1, L-1]\<close> for
  \<open>step < 0\<close>.  Every such \<open>i\<close> is an index of the array.
\<close>

theorem C2_top_level_slice:
  "appendSelector ord ordf out (Slice a) (VArr arr) rootv
     = out @ map (\<lambda>i. arr ! nat i) (slice_rfc a (int (length arr)))
   \<and> (\<forall>i \<in> set (slice_rfc a (int (length arr))). 0 \<le> i \<and> i < int (length arr))"
  using slice_rfc_bounds [of "int (length arr)" _ a]
  by (simp add: appendSlice_rfc)

text \<open>The theorem at the slice \<open>[1:5:2]\<close> of an array of length 6.\<close>

theorem C2_witness:
  "slice_rfc \<lparr>Start = 1, End = 5, Step = 2, HasStart = True, HasEnd = True, HasStep = True\<rparr> 6 = [1, 3]
   \<and> slice_rfc \<lparr>Start = 0, End = 0, Step = -2, HasStart = False, HasEnd = False, HasStep = True\<rparr> 6
       = [5, 3, 1]
   \<and> appendSelector list_order list_order []
        (Slice \<lparr>Start = 1, End = 5, Step = 2, HasStart = True, HasEnd = True, HasStep = True\<rparr>)
        (VArr [VInt 10, VInt 20, VInt 30, VInt 40, VInt 50, VInt 60]) VNil = [VInt 20, VInt 40]"
proof -
  have 1: "slice_rfc \<lparr>Start = 1, End = 5, Step = 2, HasStart = True, HasEnd = True, HasStep = True\<rparr> 6
           = [1, 3]"
    by code_simp
  have 2: "slice_rfc \<lparr>Start = 0, End = 0, Step = -2, HasStart = False, HasEnd = False, HasStep = True\<rparr> 6
           = [5, 3, 1]"
    by code_simp
  show ?thesis
    using C2_top_level_slice
            [of list_order list_order "[]"
                "\<lparr>Start = 1, End = 5, Step = 2, HasStart = True, HasEnd = True, HasStep = True\<rparr>"
                "[VInt 10, VInt 20, VInt 30, VInt 40, VInt 50, VInt 60]" VNil]
    by (simp add: 1 2)
qed

text \<open>
  Claim C9 fails on the code.  \<open>Selector.applySlice\<close> follows the procedure of
  the specification (lemma \<open>applySlice_indices_spec\<close>) and raises a negative
  \<open>start\<close> to \<open>0\<close> for a negative step; \<open>sliceIndices\<close> does not.  For the query
  \<open>$[-10::-1]\<close> and the document \<open>[1, 2, 3, 4, 5]\<close>, \<open>Path.Select\<close> selects
  nothing and \<open>PathQuery.Select\<close> selects the first element.
\<close>

theorem C9_slice_implementations_differ:
  "Path_Select list_order list_order
     \<lparr>query = Some (PathQuery [Segment [Slice \<lparr>Start = -10, End = 0, Step = -1, HasStart = True,
                                                HasEnd = False, HasStep = True\<rparr>] False] True)\<rparr>
     (VArr [VInt 1, VInt 2, VInt 3, VInt 4, VInt 5]) = Inr (Some [])
   \<and> PathQuery_Select
        (PathQuery [Segment [Slice \<lparr>Start = -10, End = 0, Step = -1, HasStart = True,
                                   HasEnd = False, HasStep = True\<rparr>] False] True)
        list_order (VArr [VInt 1, VInt 2, VInt 3, VInt 4, VInt 5])
        (VArr [VInt 1, VInt 2, VInt 3, VInt 4, VInt 5]) = [VInt 1]
   \<and> sliceIndices \<lparr>Start = -10, End = 0, Step = -1, HasStart = True, HasEnd = False, HasStep = True\<rparr> 5
       = []
   \<and> applySlice_indices
        \<lparr>Start = -10, End = 0, Step = -1, HasStart = True, HasEnd = False, HasStep = True\<rparr> 5 = [0]"
  by code_simp

subsection \<open>The zero value of Path, and canonical strings\<close>

text \<open>
  Claim C10.  For a \<open>Path\<close> whose query is \<open>nil\<close>, \<open>Select\<close> returns \<open>nil\<close>,
  \<open>SelectLocated\<close> returns \<open>nil\<close> and \<open>String\<close> returns the empty string, for
  every input; none of them panics on the \<open>nil\<close> query.
\<close>

theorem C10_zero_value_path:
  assumes "query p = None"
  shows "Path_Select ord ordf p input = Inr None
         \<and> Path_SelectLocated ord ordf p input = Inr None
         \<and> Path_String pr p = Inr ''''"
  using assms by (simp add: Path_Select_def Path_SelectLocated_def Path_String_def)

text \<open>The theorem at the zero value of \<open>Path\<close>.\<close>

theorem C10_witness:
  "query \<lparr>query = None\<rparr> = None
   \<and> Path_Select list_order list_order \<lparr>query = None\<rparr> (VArr [VInt 1]) = Inr None
   \<and> Path_SelectLocated list_order list_order \<lparr>query = None\<rparr> (VArr [VInt 1]) = Inr None
   \<and> Path_String (\<lambda>r. True) \<lparr>query = None\<rparr> = Inr ''''"
  using C10_zero_value_path [of "\<lparr>query = None\<rparr>" list_order list_order "VArr [VInt 1]" "\<lambda>r. True"]
  by simp

text \<open>The methods of \<open>PathQuery\<close> that the three operations guard would panic.\<close>

lemma nil_query_would_panic:
  "PathQuery_Segments None = Inl ErrNilDereference \<and> PathQuery_String pr None = Inl ErrNilDereference"
  by (simp add: PathQuery_Segments_def PathQuery_String_def)

text \<open>The canonical string of \<open>$.store..book[0,-1,*,1:5:2]\<close>.\<close>

lemma String_examples:
  \<open>Path_String pr \<lparr>query = Some (PathQuery [Segment [Name ''store''] False,
        Segment [Name ''book''] True, Segment [Index 0, Index (-1), Wildcard,
        Slice \<lparr>Start = 1, End = 5, Step = 2, HasStart = True, HasEnd = True, HasStep = True\<rparr>] False] True)\<rparr>
   = Inr ''$["store"]..["book"][0,-1,*,1:5:2]''\<close>
  by code_simp

text \<open>
  Claim C3 fails on the code.  \<open>Selector.writeTo\<close> writes a filter selector as
  the single character \<open>?\<close>.  The queries compiled from \<open>$[?@.a]\<close> and from
  \<open>$[?@.b]\<close> have the same canonical string \<open>$[?]\<close> and select different
  nodes from the document \<open>[{"a": 1}]\<close>: whatever parsing \<open>$[?]\<close> gives, it is
  not equivalent to both.
\<close>

theorem C3_filter_lost_in_canonical_string:
  "Path_String pr \<lparr>query = Some (PathQuery [Segment [Filter (FilterExpr
       [[ExistExpr (PathQuery [Segment [Name ''a''] False] False)]])] False] True)\<rparr> = Inr ''$[?]''
   \<and> Path_String pr \<lparr>query = Some (PathQuery [Segment [Filter (FilterExpr
       [[ExistExpr (PathQuery [Segment [Name ''b''] False] False)]])] False] True)\<rparr> = Inr ''$[?]''
   \<and> Path_Select list_order list_order
        \<lparr>query = Some (PathQuery [Segment [Filter (FilterExpr
           [[ExistExpr (PathQuery [Segment [Name ''a''] False] False)]])] False] True)\<rparr>
        (VArr [VObj [(''a'', VInt 1)]]) = Inr (Some [VObj [(''a'', VInt 1)]])
   \<and> Path_Select list_order list_order
        \<lparr>query = Some (PathQuery [Segment [Filter (FilterExpr
           [[ExistExpr (PathQuery [Segment [Name ''b''] False] False)]])] False] True)\<rparr>
        (VArr [VObj [(''a'', VInt 1)]]) = Inr (Some [])"
  by code_simp

end
